theory Spec2Isabelle
  imports Main "HOL-Library.Word"
begin

unbundle bit_operations_syntax

section \<open>The kernel monitor of JOS (kern/monitor.c)\<close>

text \<open>
  A shallow embedding of the memory-inspection commands, the stack unwinder and the
  single-step commands of \<^verbatim>\<open>kern/monitor.c\<close>. The target is 32-bit x86:
  \<^verbatim>\<open>uint32_t\<close>, \<^verbatim>\<open>uintptr_t\<close>, \<^verbatim>\<open>size_t\<close>, \<^verbatim>\<open>pde_t\<close>, \<^verbatim>\<open>pte_t\<close> and
  \<^verbatim>\<open>physaddr_t\<close> are 32-bit words whose arithmetic wraps around.
\<close>

type_synonym u8 = "8 word"
type_synonym u16 = "16 word"
type_synonym u32 = "32 word"

subsection \<open>Page-table constants\<close>

text \<open>
  The attribute bits, with the values that the comments of \<^verbatim>\<open>char2perm\<close> give them
  (monitor.c, lines 152-160).
\<close>

definition PTE_P :: u32 where "PTE_P = 0x1"
definition PTE_W :: u32 where "PTE_W = 0x2"
definition PTE_U :: u32 where "PTE_U = 0x4"
definition PTE_PWT :: u32 where "PTE_PWT = 0x8"
definition PTE_PCD :: u32 where "PTE_PCD = 0x10"
definition PTE_A :: u32 where "PTE_A = 0x20"
definition PTE_D :: u32 where "PTE_D = 0x40"
definition PTE_PS :: u32 where "PTE_PS = 0x80"
definition PTE_G :: u32 where "PTE_G = 0x100"

text \<open>
  Modelled from the spec: the address-splitting macros of \<^verbatim>\<open>inc/mmu.h\<close> and \<^verbatim>\<open>ROUNDDOWN\<close>
  of \<^verbatim>\<open>inc/types.h\<close> are not in the source tree. The spec describes a two-level
  structure with directories and tables of 1024 entries, a directory index in the
  high-order bits of an address, a table index in the middle bits and 12 low attribute
  bits in an entry (the source itself masks entries with \<^verbatim>\<open>0xFFF\<close>); that is the x86
  layout 10 + 10 + 12, written out here. \<^verbatim>\<open>PGSIZE\<close> is the small-page size, \<^verbatim>\<open>LPGSIZE\<close> the
  large-page size, the region that one directory entry covers. \<^verbatim>\<open>PGADDR\<close> puts an address
  together from its three parts, \<^verbatim>\<open>ROUNDDOWN\<close> rounds down to a multiple.
\<close>

definition PGSIZE :: u32 where "PGSIZE = 0x1000"
definition LPGSIZE :: u32 where "LPGSIZE = 0x400000"
definition PTXSHIFT :: nat where "PTXSHIFT = 12"
definition PDXSHIFT :: nat where "PDXSHIFT = 22"

definition PDX :: "u32 \<Rightarrow> u32" where
  "PDX la = drop_bit PDXSHIFT la AND 0x3FF"

definition PTX :: "u32 \<Rightarrow> u32" where
  "PTX la = drop_bit PTXSHIFT la AND 0x3FF"

definition PGOFF :: "u32 \<Rightarrow> u32" where
  "PGOFF la = la AND 0xFFF"

definition PTE_ADDR :: "u32 \<Rightarrow> u32" where
  "PTE_ADDR pte = pte AND NOT 0xFFF"

definition PGADDR :: "u32 \<Rightarrow> u32 \<Rightarrow> u32 \<Rightarrow> u32" where
  "PGADDR d t o' = push_bit PDXSHIFT d OR push_bit PTXSHIFT t OR o'"

definition ROUNDDOWN :: "u32 \<Rightarrow> u32 \<Rightarrow> u32" where
  "ROUNDDOWN a n = a - a mod n"

text \<open>\<^verbatim>\<open>#define PERM(entry) (entry & 0xFFF)\<close>\<close>

definition PERM :: "u32 \<Rightarrow> u32" where
  "PERM entry = entry AND 0xFFF"

subsection \<open>The permission codec\<close>

text \<open>
  \<^verbatim>\<open>char2perm\<close>: a \<^verbatim>\<open>switch\<close> over the nine capital letters; the default case returns
  \<^verbatim>\<open>-1\<close>, which in the return type \<^verbatim>\<open>uint32_t\<close> is the word of 32 ones.
\<close>

definition char2perm :: "char \<Rightarrow> u32" where
  "char2perm c =
     (if c = CHR ''G'' then PTE_G
      else if c = CHR ''S'' then PTE_PS
      else if c = CHR ''D'' then PTE_D
      else if c = CHR ''A'' then PTE_A
      else if c = CHR ''C'' then PTE_PCD
      else if c = CHR ''T'' then PTE_PWT
      else if c = CHR ''U'' then PTE_U
      else if c = CHR ''W'' then PTE_W
      else if c = CHR ''P'' then PTE_P
      else - 1)"

definition perm_string :: string where
  "perm_string = ''PWUTCADSG''"

text \<open>
  \<^verbatim>\<open>perm2str\<close>: a value of \<^verbatim>\<open>0x200\<close> or more is warned about and reduced by \<^verbatim>\<open>0x200\<close>; then
  the loop runs \<^verbatim>\<open>i\<close> from 8 down to 0 and writes position \<^verbatim>\<open>8 - i\<close> of the target, so
  the characters appear in the order of the loop. \<open>perm2str_warns\<close> tells whether the
  warning is printed, \<open>perm2str\<close> is the content of the nine positions written.
\<close>

definition perm2str_warns :: "u32 \<Rightarrow> bool" where
  "perm2str_warns perm = (perm \<ge> 0x200)"

definition perm2str_char :: "u32 \<Rightarrow> nat \<Rightarrow> char" where
  "perm2str_char perm i =
     (if perm AND push_bit i 1 \<noteq> 0 then perm_string ! i else CHR ''-'')"

fun perm2str_loop :: "u32 \<Rightarrow> nat \<Rightarrow> string" where
  "perm2str_loop perm 0 = [perm2str_char perm 0]"
| "perm2str_loop perm (Suc i) = perm2str_char perm (Suc i) # perm2str_loop perm i"

definition perm2str :: "u32 \<Rightarrow> string" where
  "perm2str perm =
     perm2str_loop (if perm \<ge> 0x200 then perm - 0x200 else perm) 8"

text \<open>
  \<^verbatim>\<open>str2perm\<close>: the loop ORs the value of every character into the unsigned
  accumulator; a \<open>string\<close> is the content of the C string before its terminator. The
  test \<^verbatim>\<open>perm < 0\<close> guards the \<^verbatim>\<open>panic\<close>; \<open>None\<close> is the panic. On a \<^verbatim>\<open>uint32_t\<close> the
  comparison is unsigned, as \<open><\<close> on words is. Last, the bit of \<^verbatim>\<open>'P'\<close> is cleared.
\<close>

fun str2perm_loop :: "string \<Rightarrow> u32 \<Rightarrow> u32" where
  "str2perm_loop [] perm = perm"
| "str2perm_loop (c # str) perm = str2perm_loop str (perm OR char2perm c)"

definition str2perm :: "string \<Rightarrow> u32 option" where
  "str2perm str =
     (let perm = str2perm_loop str 0
      in if perm < 0 then None
         else Some (perm AND NOT (char2perm CHR ''P'')))"

subsection \<open>The paging structures\<close>

text \<open>
  The monitor reads and writes 32-bit entries of the page directory and of the page
  tables through pointers. The model keeps them in one store, \<open>physmem\<close>, from the
  physical address of an entry to its value, so that two pointers to the same entry
  see the same value (a page directory that maps itself makes a directory entry also
  a table entry). \<open>pgdir\<close> is the physical address of the active page directory, the
  result of \<^verbatim>\<open>curenv ? curenv->env_pgdir : kern_pgdir\<close>; page directories and page tables
  are page-aligned, so entries never overlap. \<open>vbyte\<close> is what a byte read through a
  virtual address (\<^verbatim>\<open>*(uint8_t*)mstart\<close>) returns.
\<close>

record mstate =
  pgdir :: u32
  physmem :: "u32 \<Rightarrow> u32"
  vbyte :: "u32 \<Rightarrow> u8"

text \<open>
  Modelled from the spec: \<^verbatim>\<open>KADDR\<close> (kern/pmap.h) is not in the source tree; the spec
  has a physical memory accessor that maps a physical address to a directly
  dereferenceable location. With a store indexed by physical addresses it is the
  identity.
\<close>

definition KADDR :: "u32 \<Rightarrow> u32" where
  "KADDR pa = pa"

text \<open>\<^verbatim>\<open>&pgdir[PDX(va)]\<close>: the address of the directory entry; \<^verbatim>\<open>PDE(pgdir,va)\<close> reads it.\<close>

definition PDE_PTR :: "mstate \<Rightarrow> u32 \<Rightarrow> u32" where
  "PDE_PTR s va = pgdir s + 4 * PDX va"

definition PDE :: "mstate \<Rightarrow> u32 \<Rightarrow> u32" where
  "PDE s va = physmem s (PDE_PTR s va)"

text \<open>
  \<^verbatim>\<open>#define PTE_PTR(pgdir,va) (((pte_t*) KADDR(PTE_ADDR(PDE(pgdir,va)))) + PTX(va))\<close> and
  \<^verbatim>\<open>#define PTE(pgdir,va) (*(PTE_PTR(pgdir,va)))\<close>
\<close>

definition PTE_PTR :: "mstate \<Rightarrow> u32 \<Rightarrow> u32" where
  "PTE_PTR s va = KADDR (PTE_ADDR (PDE s va)) + 4 * PTX va"

definition PTE :: "mstate \<Rightarrow> u32 \<Rightarrow> u32" where
  "PTE s va = physmem s (PTE_PTR s va)"

text \<open>
  Modelled from the spec: \<^verbatim>\<open>pgdir_walk\<close> (kern/pmap.c) is not in the source tree. The
  monitor only calls it with \<^verbatim>\<open>create = 0\<close>. By the spec's \<^verbatim>\<open>leaf_entry\<close> with
  \<^verbatim>\<open>allocate = false\<close>: if the governing directory entry is absent the result is None
  (the null pointer); otherwise the second-level table is indexed with the middle
  bits of the address. The result is the address of the leaf entry; nothing is
  written.
\<close>

definition pgdir_walk :: "mstate \<Rightarrow> u32 \<Rightarrow> u32 option" where
  "pgdir_walk s va =
     (if PDE s va AND PTE_P = 0 then None else Some (PTE_PTR s va))"

subsection \<open>Console output\<close>

text \<open>
  One constructor for each \<^verbatim>\<open>cprintf\<close> format with arguments that the modelled commands
  use, holding the values printed; \<^verbatim>\<open>Warn\<close> is the \<^verbatim>\<open>warn\<close> of \<^verbatim>\<open>perm2str\<close>. The escape
  sequences that switch console attributes (\<^verbatim>\<open>ATTR_bold\<close>, \<^verbatim>\<open>ATTR_OFF\<close>, colours) are
  left out.
\<close>

datatype line =
    Warn
  | PtePerm u32
  | PseOn u32 u32 string
  | PseOff u32 u32 string
  | NoMapping u32
  | NewMapping u32 u32 u32
  | NoSuchMapping
  | DumpVA u32 u32 u8
  | DumpNoMapping u32

text \<open>The lines that report a mapped step of showmap.\<close>

fun is_Mapped :: "line \<Rightarrow> bool" where
  "is_Mapped (PseOn va pa perm) = True"
| "is_Mapped (PseOff va pa perm) = True"
| "is_Mapped l = False"

text \<open>
  An address that a present normal leaf governs: the directory entry is present and not
  a superpage, and the leaf entry is present.
\<close>

definition small_page :: "mstate \<Rightarrow> u32 \<Rightarrow> bool" where
  "small_page s va =
     (PDE s va AND PTE_P \<noteq> 0 \<and> PDE s va AND PTE_PS = 0 \<and> PTE s va AND PTE_P \<noteq> 0)"

definition perm2str_out :: "u32 \<Rightarrow> line list" where
  "perm2str_out perm = (if perm2str_warns perm then [Warn] else [])"

subsection \<open>showmap\<close>

text \<open>
  The \<^verbatim>\<open>for\<close> loop of \<^verbatim>\<open>mon_showmap\<close> has no bound of its own: \<^verbatim>\<open>vstart\<close> is advanced only in
  two of its branches, and the additions wrap. The model counts iterations with fuel:
  the result is the lines printed and \<open>Some\<close> of the return value, or \<open>None\<close> when the
  fuel ran out before the loop ended.
\<close>

fun showmap_loop :: "nat \<Rightarrow> mstate \<Rightarrow> u32 \<Rightarrow> u32 \<Rightarrow> line list \<times> int option" where
  "showmap_loop 0 s vstart vend = ([], None)"
| "showmap_loop (Suc n) s vstart vend =
     (if vstart \<le> vend then
        (let pde = PDE s vstart in
         if pde AND PTE_P \<noteq> 0 then
           (if pde AND PTE_PS \<noteq> 0 then
              (let pvaddr = PTE_ADDR pde OR push_bit PTXSHIFT (PTX vstart) in
               case showmap_loop n s (vstart + LPGSIZE) vend of (out, rc) \<Rightarrow>
                 (perm2str_out (PERM pde)
                    @ [PseOn vstart pvaddr (perm2str (PERM pde))] @ out, rc))
            else
              (let pte = PTE s vstart in
               if pte AND PTE_P \<noteq> 0 then
                 (case showmap_loop n s (vstart + PGSIZE) vend of (out, rc) \<Rightarrow>
                    ([PtePerm (PERM pte)] @ perm2str_out (PERM pte)
                       @ [PseOff vstart (PTE_ADDR pde) (perm2str (PERM pte))] @ out, rc))
               else showmap_loop n s vstart vend))
         else ([NoMapping vstart], Some 1))
      else ([], Some 0))"

text \<open>
  \<^verbatim>\<open>mon_showmap\<close> after its arguments are parsed: \<open>vstart0\<close> is \<^verbatim>\<open>strtol(argv[1])\<close>, \<open>vlen\<close> is
  \<^verbatim>\<open>strtol(argv[2])\<close> or 1. The end is computed from the start as given, then the
  start is rounded down.
\<close>

definition mon_showmap :: "nat \<Rightarrow> mstate \<Rightarrow> u32 \<Rightarrow> u32 \<Rightarrow> line list \<times> int option" where
  "mon_showmap fuel s vstart0 vlen =
     (let vend = vstart0 + vlen;
          vstart = ROUNDDOWN vstart0 PGSIZE
      in showmap_loop fuel s vstart vend)"

subsection \<open>setperm\<close>

text \<open>
  \<^verbatim>\<open>mon_setperm\<close> with \<^verbatim>\<open>argc = 3\<close>: \<open>va\<close> is \<^verbatim>\<open>strtol(argv[1])\<close>, \<open>arg\<close> is \<^verbatim>\<open>argv[2]\<close>.
  \<^verbatim>\<open>strncpy(permission, argv[2], 9)\<close> into a buffer whose tenth byte is the terminator
  keeps the first nine characters. The result of \<^verbatim>\<open>str2perm\<close> is stored in a
  \<^verbatim>\<open>uint16_t\<close>, which keeps its low 16 bits, and is widened again in the expressions
  that build the new entry. The result is \<open>None\<close> if \<^verbatim>\<open>str2perm\<close> panics, otherwise the
  return value, the lines printed and the state.
\<close>

definition mon_setperm :: "mstate \<Rightarrow> u32 \<Rightarrow> string \<Rightarrow> (int \<times> line list \<times> mstate) option" where
  "mon_setperm s va arg =
     (case str2perm (take 9 arg) of
        None \<Rightarrow> None
      | Some p \<Rightarrow>
         (let perm = (ucast (ucast p :: u16) :: u32);
              pde = PDE_PTR s va
          in if physmem s pde AND PTE_PS \<noteq> 0 then
               (if physmem s pde AND PTE_P \<noteq> 0 then
                  (let new = (physmem s pde AND NOT 0xFFF) OR perm OR PTE_P OR PTE_PS;
                       s' = s\<lparr>physmem := (physmem s)(pde := new)\<rparr>
                   in Some (0,
                        [NewMapping va
                           (PTE_ADDR new OR push_bit PTXSHIFT (PTX va) OR PGOFF va) (PERM new)],
                        s'))
                else Some (1, [NoSuchMapping], s))
             else
               (case pgdir_walk s va of
                  None \<Rightarrow> Some (1, [NoSuchMapping], s)
                | Some pte \<Rightarrow>
                    if physmem s pte AND PTE_P \<noteq> 0 then
                      (let new = (physmem s pte AND NOT 0xFFF) OR (perm AND 0xFFF) OR PTE_P;
                           s' = s\<lparr>physmem := (physmem s)(pte := new)\<rparr>
                       in Some (0, [NewMapping va (PTE_ADDR new OR PGOFF va) (PERM new)], s'))
                    else Some (1, [NoSuchMapping], s))))"

subsection \<open>dumpmem, virtual mode\<close>

text \<open>
  The inner loops \<^verbatim>\<open>for (; mstart < next; ++mstart)\<close> print one line for each address from
  \<^verbatim>\<open>mstart\<close> up to \<^verbatim>\<open>next\<close>, and leave \<^verbatim>\<open>mstart\<close> at \<^verbatim>\<open>next\<close> if it was below, unchanged
  otherwise.
\<close>

definition for_range :: "u32 \<Rightarrow> u32 \<Rightarrow> u32 list" where
  "for_range mstart next = map of_nat [unat mstart ..< unat next]"

definition for_end :: "u32 \<Rightarrow> u32 \<Rightarrow> u32" where
  "for_end mstart next = (if mstart < next then next else mstart)"

text \<open>
  The \<^verbatim>\<open>while\<close> loop of the branch taken without \<^verbatim>\<open>-p\<close> (\<^verbatim>\<open>phys = 0\<close>), with fuel for its
  iterations as in showmap.
\<close>

fun dumpmem_loop :: "nat \<Rightarrow> mstate \<Rightarrow> u32 \<Rightarrow> u32 \<Rightarrow> line list \<times> int option" where
  "dumpmem_loop 0 s mstart mend = ([], None)"
| "dumpmem_loop (Suc n) s mstart mend =
     (if mstart < mend then
        (if PDE s mstart AND PTE_PS \<noteq> 0 then
           (if PDE s mstart AND PTE_P \<noteq> 0 then
              (let next = min (PGADDR (PDX mstart) (PTX mstart + 1) 0) mend in
               case dumpmem_loop n s (for_end mstart next) mend of (out, rc) \<Rightarrow>
                 (map (\<lambda>a. DumpVA a
                        (PTE_ADDR (PDE s a) OR push_bit PTXSHIFT (PTX a) OR PGOFF a) (vbyte s a))
                    (for_range mstart next) @ out, rc))
            else
              (case dumpmem_loop n s mstart mend of (out, rc) \<Rightarrow>
                 (DumpNoMapping mstart # out, rc)))
         else
           (case pgdir_walk s mstart of
              None \<Rightarrow>
                (let next = min (PGADDR (PDX mstart + 1) 0 0) mend in
                 case dumpmem_loop n s (for_end mstart next) mend of (out, rc) \<Rightarrow>
                   (map DumpNoMapping (for_range mstart next) @ out, rc))
            | Some pte \<Rightarrow>
                if physmem s pte AND PTE_P = 0 then
                  (let next = min (PGADDR (PDX mstart) (PTX mstart + 1) 0) mend in
                   case dumpmem_loop n s (for_end mstart next) mend of (out, rc) \<Rightarrow>
                     (map DumpNoMapping (for_range mstart next) @ out, rc))
                else
                  (let next = min (PGADDR (PDX mstart) (PTX mstart + 1) 0) mend in
                   case dumpmem_loop n s (for_end mstart next) mend of (out, rc) \<Rightarrow>
                     (map (\<lambda>a. DumpVA a (PTE_ADDR (physmem s pte) OR PGOFF a) (vbyte s a))
                        (for_range mstart next) @ out, rc))))
      else ([], Some 0))"

definition mon_dumpmem :: "nat \<Rightarrow> mstate \<Rightarrow> u32 \<Rightarrow> u32 \<Rightarrow> line list \<times> int option" where
  "mon_dumpmem fuel s mstart mlen = dumpmem_loop fuel s mstart (mstart + mlen)"

subsection \<open>backtrace\<close>

text \<open>
  \<^verbatim>\<open>mon_backtrace\<close> reads the stack through the frame pointer: \<open>rd a\<close> is the 32-bit word at
  virtual address \<open>a\<close>. \<^verbatim>\<open>(int *)ebp + 1\<close> is the word four bytes above \<^verbatim>\<open>ebp\<close>, \<^verbatim>\<open>args\<close>
  starts eight bytes above. \<^verbatim>\<open>debuginfo_eip\<close> (kern/kdebug.c) is an external resolver and
  a parameter of the model; \<open>Eipdebuginfo\<close> has the fields that the monitor prints. One
  \<open>stackframe\<close> holds what one iteration prints: \<^verbatim>\<open>ebp\<close>, \<^verbatim>\<open>eip\<close>, the four words of
  \<^verbatim>\<open>args\<close>, and from the resolver the file, the line, the function name cut to its
  length, and the offset \<^verbatim>\<open>eip - info.eip_fn_addr\<close>.
\<close>

record Eipdebuginfo =
  eip_file :: string
  eip_line :: int
  eip_fn_name :: string
  eip_fn_namelen :: nat
  eip_fn_addr :: u32

record stackframe =
  sf_ebp :: u32
  sf_eip :: u32
  sf_args :: "u32 list"
  sf_file :: string
  sf_line :: int
  sf_fn :: string
  sf_off :: u32

definition read_frame :: "(u32 \<Rightarrow> Eipdebuginfo) \<Rightarrow> (u32 \<Rightarrow> u32) \<Rightarrow> u32 \<Rightarrow> stackframe" where
  "read_frame debuginfo_eip rd ebp =
     (let eip = rd (ebp + 4 * 1);
          args = ebp + 4 * 2;
          info = debuginfo_eip eip
      in \<lparr>sf_ebp = ebp, sf_eip = eip,
          sf_args = map (\<lambda>i. rd (args + 4 * of_nat i)) [0 ..< 4],
          sf_file = eip_file info, sf_line = eip_line info,
          sf_fn = take (eip_fn_namelen info) (eip_fn_name info),
          sf_off = eip - eip_fn_addr info\<rparr>)"

text \<open>
  The \<^verbatim>\<open>while (ebp)\<close> loop follows the saved frame pointers for as long as they are not
  zero, so it is given fuel; \<open>None\<close> in the second component says that the fuel ran out.
\<close>

fun backtrace_loop ::
  "nat \<Rightarrow> (u32 \<Rightarrow> Eipdebuginfo) \<Rightarrow> (u32 \<Rightarrow> u32) \<Rightarrow> u32 \<Rightarrow> stackframe list \<times> int option" where
  "backtrace_loop 0 debuginfo_eip rd ebp = ([], None)"
| "backtrace_loop (Suc n) debuginfo_eip rd ebp =
     (if ebp \<noteq> 0 then
        (case backtrace_loop n debuginfo_eip rd (rd ebp) of (out, rc) \<Rightarrow>
           (read_frame debuginfo_eip rd ebp # out, rc))
      else ([], Some 0))"

text \<open>\<open>ebp\<close> is the value of \<^verbatim>\<open>read_ebp()\<close>, the frame pointer of the monitor itself.\<close>

definition mon_backtrace ::
  "nat \<Rightarrow> (u32 \<Rightarrow> Eipdebuginfo) \<Rightarrow> (u32 \<Rightarrow> u32) \<Rightarrow> u32 \<Rightarrow> stackframe list \<times> int option" where
  "mon_backtrace fuel debuginfo_eip rd ebp = backtrace_loop fuel debuginfo_eip rd ebp"

text \<open>
  A frame-pointer chain \<open>fp0 -> fp1 -> ... -> 0\<close>: the list of its frame pointers, none of
  them zero, the first word of each frame holding the next one and the first word of
  the last frame holding zero.
\<close>

fun fp_chain :: "(u32 \<Rightarrow> u32) \<Rightarrow> u32 \<Rightarrow> u32 list \<Rightarrow> bool" where
  "fp_chain rd fp [] = (fp = 0)"
| "fp_chain rd fp (x # xs) = (fp = x \<and> x \<noteq> 0 \<and> fp_chain rd (rd x) xs)"

text \<open>
  The order that the spec names: caller to callee, outer to inner. A function saves the
  frame pointer of its caller in the first word of its own frame, so a list of frames
  is in that order if each frame is the one saved by the frame after it.
\<close>

fun caller_to_callee :: "(u32 \<Rightarrow> u32) \<Rightarrow> stackframe list \<Rightarrow> bool" where
  "caller_to_callee rd (f # g # fs) = (rd (sf_ebp g) = sf_ebp f \<and> caller_to_callee rd (g # fs))"
| "caller_to_callee rd fs = True"

text \<open>The order of the walk: each frame is followed by the frame of its caller.\<close>

fun callee_to_caller :: "(u32 \<Rightarrow> u32) \<Rightarrow> stackframe list \<Rightarrow> bool" where
  "callee_to_caller rd (f # g # fs) = (rd (sf_ebp f) = sf_ebp g \<and> callee_to_caller rd (g # fs))"
| "callee_to_caller rd fs = True"

subsection \<open>step and continue\<close>

text \<open>
  The fields of \<^verbatim>\<open>struct Trapframe\<close> (inc/trap.h) that the two commands use; the other
  fields are the extension of the record. A null \<^verbatim>\<open>tf\<close> is \<open>None\<close>.
\<close>

record Trapframe =
  tf_trapno :: u32
  tf_cs :: u16
  tf_eflags :: u32

text \<open>
  Modelled from the spec: \<^verbatim>\<open>T_DEBUG\<close>, \<^verbatim>\<open>T_BRKPT\<close> (inc/trap.h) and \<^verbatim>\<open>FL_TF\<close> (inc/mmu.h) are
  not in the source tree. The spec names them the debug exception, the breakpoint
  exception and the trap (single-step) flag of the saved flags register; on x86 these
  are vectors 1 and 3 and bit 8 of \<^verbatim>\<open>EFLAGS\<close>.
\<close>

definition T_DEBUG :: u32 where "T_DEBUG = 1"
definition T_BRKPT :: u32 where "T_BRKPT = 3"
definition FL_TF :: u32 where "FL_TF = 0x100"

text \<open>
  The commands return the value that \<^verbatim>\<open>runcmd\<close> passes on to \<^verbatim>\<open>monitor\<close>, and the trap frame
  as they leave it.
\<close>

definition mon_step :: "'a Trapframe_scheme option \<Rightarrow> int \<times> 'a Trapframe_scheme option" where
  "mon_step tf =
     (case tf of
        None \<Rightarrow> (0, tf)
      | Some t \<Rightarrow>
          if \<not> ((tf_trapno t = T_DEBUG \<or> tf_trapno t = T_BRKPT) \<and> tf_cs t AND 3 = 3)
          then (0, tf)
          else (- 1, Some (t\<lparr>tf_eflags := tf_eflags t OR FL_TF\<rparr>)))"

definition mon_continue :: "'a Trapframe_scheme option \<Rightarrow> int \<times> 'a Trapframe_scheme option" where
  "mon_continue tf =
     (case tf of
        None \<Rightarrow> (0, tf)
      | Some t \<Rightarrow>
          if \<not> ((tf_trapno t = T_DEBUG \<or> tf_trapno t = T_BRKPT) \<and> tf_cs t AND 3 = 3)
          then (0, tf)
          else (- 1, Some (t\<lparr>tf_eflags := tf_eflags t AND NOT FL_TF\<rparr>)))"

text \<open>
  The loop of \<^verbatim>\<open>monitor\<close> leaves, and the trapped context resumes, exactly when a command
  returns a negative value: \<^verbatim>\<open>if (runcmd(buf, tf) < 0) break;\<close>
\<close>

definition monitor_exits :: "int \<Rightarrow> bool" where
  "monitor_exits r = (r < 0)"

subsection \<open>Example states\<close>

text \<open>
  A page directory at physical address \<open>0x3000\<close> whose entry 0 points to a page table at
  \<open>0x2000\<close>, and nothing else. In \<open>st_two_pages\<close> the table maps the pages at \<open>0x1000\<close> and
  \<open>0x2000\<close> to the frames \<open>0x5000\<close> and \<open>0x6000\<close>, present and writable; in \<open>st_one_page\<close>
  only the first; in \<open>st_empty_table\<close> the table is empty. In \<open>st_absent_super\<close> entry 0 of
  the directory has the superpage bit and not the present bit.
\<close>

definition st_empty_table :: mstate where
  "st_empty_table =
     \<lparr>pgdir = 0x3000, physmem = (\<lambda>a. 0)(0x3000 := 0x2003), vbyte = (\<lambda>a. 0)\<rparr>"

definition st_one_page :: mstate where
  "st_one_page =
     \<lparr>pgdir = 0x3000, physmem = (\<lambda>a. 0)(0x3000 := 0x2003, 0x2004 := 0x5003),
      vbyte = (\<lambda>a. 0)\<rparr>"

definition st_two_pages :: mstate where
  "st_two_pages =
     \<lparr>pgdir = 0x3000,
      physmem = (\<lambda>a. 0)(0x3000 := 0x2003, 0x2004 := 0x5003, 0x2008 := 0x6003),
      vbyte = (\<lambda>a. 0)\<rparr>"

definition st_absent_super :: mstate where
  "st_absent_super =
     \<lparr>pgdir = 0x3000, physmem = (\<lambda>a. 0)(0x3000 := 0x80), vbyte = (\<lambda>a. 0)\<rparr>"

text \<open>
  In \<open>st_superpage\<close> entry 0 of the directory is a present, writable superpage at
  \<open>0x400000\<close>.
\<close>

definition st_superpage :: mstate where
  "st_superpage =
     \<lparr>pgdir = 0x3000, physmem = (\<lambda>a. 0)(0x3000 := 0x400083), vbyte = (\<lambda>a. 0)\<rparr>"

text \<open>
  Two trap frames taken from user mode (\<^verbatim>\<open>tf_cs = 0x1B\<close>): a page fault (trap 14) and a
  breakpoint (trap 3).
\<close>

definition tf_pgflt :: Trapframe where
  "tf_pgflt = \<lparr>tf_trapno = 14, tf_cs = 0x1B, tf_eflags = 0x202\<rparr>"

definition tf_brkpt :: Trapframe where
  "tf_brkpt = \<lparr>tf_trapno = 3, tf_cs = 0x1B, tf_eflags = 0x202\<rparr>"

text \<open>A stack of two frames, at \<open>0x100\<close> and at \<open>0x200\<close>, the second one the outermost.\<close>

definition rd_two_frames :: "u32 \<Rightarrow> u32" where
  "rd_two_frames = (\<lambda>a. 0)(0x100 := 0x200, 0x104 := 0x11, 0x200 := 0, 0x204 := 0x22)"

definition no_debuginfo :: "u32 \<Rightarrow> Eipdebuginfo" where
  "no_debuginfo eip =
     \<lparr>eip_file = ''<unknown>'', eip_line = 0, eip_fn_name = ''<unknown>'',
      eip_fn_namelen = 9, eip_fn_addr = eip\<rparr>"

section \<open>Properties\<close>

lemmas PTE_defs =
  PTE_P_def PTE_W_def PTE_U_def PTE_PWT_def PTE_PCD_def PTE_A_def PTE_D_def PTE_PS_def PTE_G_def

subsection \<open>The codec\<close>

lemma char2perm_nth:
  "i < 9 \<Longrightarrow> char2perm (perm_string ! i) = push_bit i 1"
proof -
  assume "i < 9"
  then have "i \<in> {0, 1, 2, 3, 4, 5, 6, 7, 8}" by auto
  then show ?thesis
    by (auto simp: char2perm_def perm_string_def PTE_defs)
qed

lemma perm_string_nth_not_dash: "i < 9 \<Longrightarrow> perm_string ! i \<noteq> CHR ''-''"
proof -
  assume "i < 9"
  then have "i \<in> {0, 1, 2, 3, 4, 5, 6, 7, 8}" by auto
  then show ?thesis by (auto simp: perm_string_def)
qed

lemma perm2str_char_bit:
  "perm2str_char p i = (if bit p i then perm_string ! i else CHR ''-'')"
  by (simp only: perm2str_char_def bit_iff_and_push_bit_not_eq_0)

lemma perm2str_loop_8:
  "perm2str_loop p 8 =
     [perm2str_char p 8, perm2str_char p 7, perm2str_char p 6, perm2str_char p 5,
      perm2str_char p 4, perm2str_char p 3, perm2str_char p 2, perm2str_char p 1,
      perm2str_char p 0]"
  by (simp add: eval_nat_numeral)

lemma nth_perm_string:
  "perm_string ! 0 = CHR ''P''" "perm_string ! 1 = CHR ''W''" "perm_string ! 2 = CHR ''U''"
  "perm_string ! 3 = CHR ''T''" "perm_string ! 4 = CHR ''C''" "perm_string ! 5 = CHR ''A''"
  "perm_string ! 6 = CHR ''D''" "perm_string ! 7 = CHR ''S''" "perm_string ! 8 = CHR ''G''"
  "perm_string ! Suc 0 = CHR ''W''"
  by (simp_all add: perm_string_def)

lemma perm2str_loop_length: "length (perm2str_loop p i) = Suc i"
  by (induction i) simp_all

lemma perm2str_loop_set: "i < 9 \<Longrightarrow> set (perm2str_loop p i) \<subseteq> set ''GSDACTUWP-''"
proof (induction i)
  case 0
  then show ?case by (simp add: perm2str_char_def perm_string_def)
next
  case (Suc i)
  then have "Suc i \<in> {1, 2, 3, 4, 5, 6, 7, 8}" by auto
  then have "perm2str_char p (Suc i) \<in> set ''GSDACTUWP-''"
    by (auto simp: perm2str_char_bit perm_string_def)
  with Suc show ?case by simp
qed

text \<open>The panic of \<open>str2perm\<close> is unreachable: no word is below zero.\<close>

lemma str2perm_never_panics: "str2perm str \<noteq> None"
  by (simp add: str2perm_def Let_def)

text \<open>Decoding the letters of an encoding, from position \<open>i\<close> down, collects the bits up to \<open>i\<close>.\<close>

lemma mask_Suc_split:
  "(p :: u32) AND mask (Suc i) = (if bit p i then push_bit i 1 else 0) OR (p AND mask i)"
  by (rule bit_eqI) (auto simp: bit_simps less_Suc_eq)

lemma str2perm_loop_char:
  "i < 9 \<Longrightarrow>
   str2perm_loop (filter (\<lambda>c. c \<noteq> CHR ''-'') (perm2str_char p i # cs)) acc =
   str2perm_loop (filter (\<lambda>c. c \<noteq> CHR ''-'') cs)
     (acc OR (if bit p i then push_bit i 1 else 0))"
  by (simp add: perm2str_char_bit char2perm_nth perm_string_nth_not_dash del: push_bit_Suc)

lemma str2perm_loop_letters:
  "i < 9 \<Longrightarrow>
   str2perm_loop (filter (\<lambda>c. c \<noteq> CHR ''-'') (perm2str_loop p i)) acc =
   acc OR (p AND mask (Suc i))"
proof (induction i arbitrary: acc)
  case 0
  have "str2perm_loop (filter (\<lambda>c. c \<noteq> CHR ''-'') (perm2str_loop p 0)) acc =
        acc OR (if bit p 0 then push_bit 0 1 else 0)"
    unfolding perm2str_loop.simps by (subst str2perm_loop_char) simp_all
  also have "\<dots> = acc OR (p AND mask (Suc 0))"
    by (subst mask_Suc_split) simp
  finally show ?case .
next
  case (Suc i)
  then have i: "i < 9" "Suc i < 9" by simp_all
  have "str2perm_loop (filter (\<lambda>c. c \<noteq> CHR ''-'') (perm2str_loop p (Suc i))) acc =
        (acc OR (if bit p (Suc i) then push_bit (Suc i) 1 else 0)) OR (p AND mask (Suc i))"
    unfolding perm2str_loop.simps
    by (subst str2perm_loop_char[OF i(2)]) (rule Suc.IH[OF i(1)])
  also have "\<dots> = acc OR (p AND mask (Suc (Suc i)))"
    by (subst mask_Suc_split[of p "Suc i"]) (simp only: ac_simps)
  finally show ?case .
qed

lemma and_not_1: "(p :: u32) AND 1 = 0 \<Longrightarrow> p AND NOT 1 = p"
proof -
  assume "p AND 1 = 0"
  then have "\<not> bit p 0" by (simp add: and_one_eq bit_0 even_iff_mod_2_eq_zero)
  then show ?thesis
    by - (rule bit_eqI, auto simp: bit_simps intro: ccontr)
qed

lemma perm2str_2: "perm2str 2 = ''-------W-''"
  by (simp add: perm2str_def perm2str_loop_8 perm2str_char_def nth_perm_string)

text \<open>
  C10. The two tables agree: for every index \<open>i\<close> from 0 to 8, decoding the \<open>i\<close>-th
  character of the encode string \<^verbatim>\<open>"PWUTCADSG"\<close> gives the single bit \<^verbatim>\<open>1 << i\<close>.
\<close>

theorem char2perm_perm_string_consistent:
  "i < 9 \<Longrightarrow>
   perm_string = ''PWUTCADSG'' \<and> char2perm (perm_string ! i) = push_bit i 1"
  by (simp add: char2perm_nth) (simp add: perm_string_def)

theorem char2perm_perm_string_consistent_witness:
  "(3::nat) < 9 \<and> (perm_string = ''PWUTCADSG'' \<and> char2perm (perm_string ! 3) = push_bit 3 1)"
proof -
  have h: "(3::nat) < 9" by simp
  from h char2perm_perm_string_consistent [OF h] show ?thesis by (rule conjI)
qed

text \<open>
  The encoding of a present entry with a bit above the nine: the warning branch is
  taken, and \<^verbatim>\<open>P\<close> appears.
\<close>

lemma perm2str_present_high: "perm2str 0x203 = ''-------WP'' \<and> perm2str_warns 0x203"
  by (simp add: perm2str_def perm2str_warns_def perm2str_loop_8 perm2str_char_def
      nth_perm_string)

text \<open>
  C2, as amended. The encoding of every value, whatever its bits, is exactly 9
  characters, each one of \<^verbatim>\<open>G,S,D,A,C,T,U,W,P\<close> or \<^verbatim>\<open>-\<close>. For every 9-bit permission set \<open>p\<close>
  with the Present bit cleared, decoding the mnemonic letters of the encoding of \<open>p\<close>
  (the encoding without its \<^verbatim>\<open>-\<close> placeholders, which the decode table does not know)
  returns \<open>p\<close> again.
\<close>

theorem str2perm_perm2str_letters:
  "length (perm2str p) = 9
   \<and> set (perm2str p) \<subseteq> set ''GSDACTUWP-''
   \<and> (p < 0x200 \<and> p AND PTE_P = 0 \<longrightarrow>
        str2perm (filter (\<lambda>c. c \<noteq> CHR ''-'') (perm2str p)) = Some p)"
proof -
  have len: "length (perm2str p) = 9"
    by (simp add: perm2str_def perm2str_loop_length)
  have alphabet: "set (perm2str p) \<subseteq> set ''GSDACTUWP-''"
    unfolding perm2str_def by (rule perm2str_loop_set) simp
  have roundtrip: "str2perm (filter (\<lambda>c. c \<noteq> CHR ''-'') (perm2str p)) = Some p"
    if small: "p < 0x200" and absent: "p AND PTE_P = 0"
  proof -
    have m: "p AND mask 9 = p" using small by (simp add: less_mask_eq)
    have "\<not> p \<ge> 0x200" using small by simp
    then have "str2perm_loop (filter (\<lambda>c. c \<noteq> CHR ''-'') (perm2str p)) 0 = p"
      using str2perm_loop_letters[of 8 p 0] m by (simp add: perm2str_def)
    moreover have "p AND NOT 1 = p"
      by (rule and_not_1) (use absent in \<open>simp only: PTE_P_def\<close>)
    moreover have "char2perm CHR ''P'' = 1"
      by (simp add: char2perm_def PTE_P_def)
    ultimately show ?thesis
      unfolding str2perm_def Let_def by (simp only: word_not_simps if_False)
  qed
  from len alphabet roundtrip show ?thesis by blast
qed

theorem str2perm_perm2str_letters_witness:
  "((2::u32) < 0x200 \<and> 2 AND PTE_P = 0)
   \<and> str2perm (filter (\<lambda>c. c \<noteq> CHR ''-'') (perm2str 2)) = Some 2
   \<and> length (perm2str 2) = 9 \<and> set (perm2str 2) \<subseteq> set ''GSDACTUWP-''
   \<and> length (perm2str 0x203) = 9 \<and> set (perm2str 0x203) \<subseteq> set ''GSDACTUWP-''"
proof -
  have h: "(2::u32) < 0x200 \<and> 2 AND PTE_P = 0" by (simp add: PTE_P_def)
  note t = str2perm_perm2str_letters [of 2]
  note u = str2perm_perm2str_letters [of "0x203"]
  note r = mp [OF conjunct2 [OF conjunct2 [OF t]] h]
  show ?thesis
    by (rule conjI [OF h conjI [OF r conjI [OF conjunct1 [OF t]
          conjI [OF conjunct1 [OF conjunct2 [OF t]]
            conjI [OF conjunct1 [OF u] conjunct1 [OF conjunct2 [OF u]]]]]]])
qed

text \<open>
  The claim C2 as stated fails: \<open>p = 2\<close> (Writable alone) is a 9-bit set with Present
  cleared, and decoding its encoding \<^verbatim>\<open>"-------W-"\<close> does not return it.
\<close>

theorem str2perm_perm2str_counterexample:
  "(2::u32) < 0x200 \<and> 2 AND PTE_P = 0
   \<and> str2perm (perm2str 2) = Some 0xFFFFFFFE \<and> str2perm (perm2str 2) \<noteq> Some 2"
  by (simp add: perm2str_2 str2perm_def char2perm_def PTE_defs)

subsection \<open>setperm\<close>

lemmas paging_defs =
  PDE_PTR_def PDE_def PTE_PTR_def PTE_def KADDR_def PDX_def PTX_def PGOFF_def PTE_ADDR_def
  PERM_def PDXSHIFT_def PTXSHIFT_def PGSIZE_def LPGSIZE_def pgdir_walk_def

text \<open>
  C1 does not hold of the code. In \<open>st_one_page\<close> the page at \<open>0x1000\<close> has the leaf entry
  \<open>0x5003\<close>. With the string \<^verbatim>\<open>"WPZ"\<close>, whose \<^verbatim>\<open>Z\<close> has no mnemonic, \<open>mon_setperm\<close> does not
  fail: it returns 0 and rewrites the entry to \<open>0x5FFF\<close>, all twelve attribute bits set.
\<close>

theorem mon_setperm_unknown_mnemonic:
  "physmem st_one_page 0x2004 = 0x5003
   \<and> mon_setperm st_one_page 0x1000 ''WPZ'' =
       Some (0, [NewMapping 0x1000 0x5000 0xFFF],
             st_one_page\<lparr>physmem := (physmem st_one_page)(0x2004 := 0x5FFF)\<rparr>)"
  by (simp add: mon_setperm_def str2perm_def char2perm_def PTE_defs st_one_page_def
      paging_defs Let_def)

lemma c_FFF: "(0xFFF :: u32) = mask 12"
  by (simp add: mask_eq_exp_minus_1)

lemma PTE_P_bit: "PTE_P = push_bit 0 1"
  by (simp add: PTE_P_def)

lemma PTE_PS_bit: "PTE_PS = push_bit 7 1"
  by (simp add: PTE_PS_def)

lemma and_PTE_P: "(x AND PTE_P \<noteq> 0) = bit x 0"
  unfolding PTE_P_bit by (rule bit_iff_and_push_bit_not_eq_0[symmetric])

lemma and_PTE_PS: "(x AND PTE_PS \<noteq> 0) = bit x 7"
  unfolding PTE_PS_bit by (rule bit_iff_and_push_bit_not_eq_0[symmetric])

text \<open>The bits that a string of mnemonic letters decodes to.\<close>

lemma bit_str2perm_loop:
  "bit (str2perm_loop cs acc) n = (bit acc n \<or> (\<exists>c \<in> set cs. bit (char2perm c) n))"
  by (induction cs arbitrary: acc) (auto simp: bit_simps)

lemma bit_char2perm_letter:
  assumes "c \<in> set perm_string"
  shows "bit (char2perm c) n = (n < 9 \<and> c = perm_string ! n)"
proof -
  have len: "length perm_string = 9" and dist: "distinct perm_string"
    by (simp_all add: perm_string_def)
  from assms obtain i where i: "i < 9" "c = perm_string ! i"
    using len by (auto simp: in_set_conv_nth)
  have inj: "\<And>j. j < 9 \<Longrightarrow> (perm_string ! i = perm_string ! j) = (i = j)"
    using i(1) len dist by (simp add: nth_eq_iff_index_eq)
  show ?thesis
    using i inj by (auto simp: char2perm_nth bit_simps)
qed

lemma bit_str2perm_letters:
  assumes "set cs \<subseteq> set perm_string" and "str2perm cs = Some p"
  shows "bit p n = (0 < n \<and> n < 9 \<and> perm_string ! n \<in> set cs)"
proof -
  have P: "char2perm CHR ''P'' = 1" by (simp add: char2perm_def PTE_P_def)
  have p: "p = str2perm_loop cs 0 AND NOT 1"
    using assms(2) by (simp add: str2perm_def Let_def P split: if_splits)
  have "(\<exists>c \<in> set cs. bit (char2perm c) n) = (n < 9 \<and> perm_string ! n \<in> set cs)"
    using assms(1) by (auto simp: bit_char2perm_letter subset_iff)
  then show ?thesis
    unfolding p by (auto simp: bit_simps bit_str2perm_loop)
qed

text \<open>The entries that the two branches of \<open>mon_setperm\<close> write.\<close>

lemma or_and_absorb_mask:
  fixes m :: u32
  shows "a AND m = 0 \<Longrightarrow> b AND m = 0 \<Longrightarrow> c AND m = 0 \<Longrightarrow>
         ((old AND m) OR a OR b OR c) AND m = old AND m"
  by (simp add: bit.conj_disj_distrib2 and.assoc)

lemma new_entry_super:
  fixes old p :: u32
  assumes "\<And>n. bit p n \<Longrightarrow> n < 9"
  defines "new \<equiv> (old AND NOT 0xFFF) OR ucast (ucast p :: u16) OR PTE_P OR PTE_PS"
  shows "new AND PTE_P \<noteq> 0" "new AND PTE_PS \<noteq> 0" "new AND NOT 0xFFF = old AND NOT 0xFFF"
proof -
  show "new AND PTE_P \<noteq> 0"
    unfolding and_PTE_P new_def by (simp add: bit_simps PTE_P_def)
  show "new AND PTE_PS \<noteq> 0"
    unfolding and_PTE_PS new_def by (simp add: bit_simps PTE_PS_bit)
  have a: "PTE_P AND NOT 0xFFF = 0" "PTE_PS AND NOT 0xFFF = 0"
    by (simp_all add: PTE_defs)
  have b: "ucast (ucast p :: u16) AND NOT (0xFFF :: u32) = 0"
    unfolding c_FFF by (rule bit_eqI) (auto simp: bit_simps dest!: assms(1))
  show "new AND NOT 0xFFF = old AND NOT 0xFFF"
    unfolding new_def by (rule or_and_absorb_mask[OF b a])
qed

lemma new_entry_leaf:
  fixes old p :: u32
  defines "new \<equiv> (old AND NOT 0xFFF) OR (ucast (ucast p :: u16) AND 0xFFF) OR PTE_P"
  shows "new AND PTE_P \<noteq> 0" "(new AND PTE_PS \<noteq> 0) = bit p 7"
    "new AND NOT 0xFFF = old AND NOT 0xFFF"
proof -
  show "new AND PTE_P \<noteq> 0"
    unfolding and_PTE_P new_def by (simp add: bit_simps PTE_P_def)
  show "(new AND PTE_PS \<noteq> 0) = bit p 7"
    unfolding and_PTE_PS new_def c_FFF PTE_P_bit by (simp add: bit_simps)
  show "new AND NOT 0xFFF = old AND NOT 0xFFF"
    unfolding new_def c_FFF PTE_P_bit
    by (rule bit_eqI) (auto simp: bit_simps)
qed

text \<open>
  What the restriction to mnemonic letters in C3 below leaves out: on the superpage
  path a character without a mnemonic also sets bits 12 to 15 of the entry.
\<close>

lemma mon_setperm_superpage_unknown_mnemonic:
  "mon_setperm st_superpage 0x1000 ''Z'' =
     Some (0, [NewMapping 0x1000 0x40F000 0xFFF],
           st_superpage\<lparr>physmem := (physmem st_superpage)(0x3000 := 0x40FFFF)\<rparr>)"
  by (simp add: mon_setperm_def str2perm_def char2perm_def PTE_defs st_superpage_def
      paging_defs Let_def)

text \<open>
  C3, as amended. For every setperm invocation whose permission string (its first nine
  characters) consists of mnemonic letters, on an existing present mapping: the command
  succeeds and writes exactly one entry, the directory entry on the superpage path and
  the leaf entry otherwise; every other entry and the choice of page directory are
  unchanged. The entry written has the Present bit set and all its bits above the
  twelve attribute bits (the physical frame address) unchanged. On the superpage path
  its Superpage bit stays set. On the leaf path bit 7 of the leaf entry, the position
  of the Superpage bit, is not preserved: it is set exactly when the string contains
  \<^verbatim>\<open>S\<close>.
\<close>

theorem mon_setperm_attribute_bits:
  assumes letters: "set (take 9 arg) \<subseteq> set perm_string"
  shows
   "(physmem s (PDE_PTR s va) AND PTE_PS \<noteq> 0 \<and> physmem s (PDE_PTR s va) AND PTE_P \<noteq> 0 \<longrightarrow>
       (\<exists>out s'. mon_setperm s va arg = Some (0, out, s')
          \<and> pgdir s' = pgdir s \<and> (\<forall>a. a \<noteq> PDE_PTR s va \<longrightarrow> physmem s' a = physmem s a)
          \<and> physmem s' (PDE_PTR s va) AND PTE_P \<noteq> 0
          \<and> physmem s' (PDE_PTR s va) AND PTE_PS \<noteq> 0
          \<and> physmem s' (PDE_PTR s va) AND NOT 0xFFF = physmem s (PDE_PTR s va) AND NOT 0xFFF))
  \<and> (physmem s (PDE_PTR s va) AND PTE_PS = 0 \<and> pgdir_walk s va = Some pte
        \<and> physmem s pte AND PTE_P \<noteq> 0 \<longrightarrow>
       (\<exists>out s'. mon_setperm s va arg = Some (0, out, s')
          \<and> pgdir s' = pgdir s \<and> (\<forall>a. a \<noteq> pte \<longrightarrow> physmem s' a = physmem s a)
          \<and> physmem s' pte AND PTE_P \<noteq> 0
          \<and> physmem s' pte AND NOT 0xFFF = physmem s pte AND NOT 0xFFF
          \<and> (physmem s' pte AND PTE_PS \<noteq> 0 \<longleftrightarrow> CHR ''S'' \<in> set (take 9 arg))))"
proof -
  obtain p where p: "str2perm (take 9 arg) = Some p"
    using str2perm_never_panics[of "take 9 arg"] by auto
  note bits = bit_str2perm_letters[OF letters p]
  have small: "\<And>n. bit p n \<Longrightarrow> n < 9" by (simp add: bits)
  have S: "bit p 7 = (CHR ''S'' \<in> set (take 9 arg))"
    by (simp add: bits nth_perm_string)
  show ?thesis
    by (simp add: mon_setperm_def p Let_def new_entry_super[OF small, simplified]
        new_entry_leaf[simplified] S)
qed

theorem mon_setperm_attribute_bits_witness:
  "set (take 9 ''W'') \<subseteq> set perm_string
   \<and> (physmem st_superpage (PDE_PTR st_superpage 0x1000) AND PTE_PS \<noteq> 0
        \<and> physmem st_superpage (PDE_PTR st_superpage 0x1000) AND PTE_P \<noteq> 0)
   \<and> (\<exists>out s'. mon_setperm st_superpage 0x1000 ''W'' = Some (0, out, s')
          \<and> pgdir s' = pgdir st_superpage
          \<and> (\<forall>a. a \<noteq> PDE_PTR st_superpage 0x1000 \<longrightarrow> physmem s' a = physmem st_superpage a)
          \<and> physmem s' (PDE_PTR st_superpage 0x1000) AND PTE_P \<noteq> 0
          \<and> physmem s' (PDE_PTR st_superpage 0x1000) AND PTE_PS \<noteq> 0
          \<and> physmem s' (PDE_PTR st_superpage 0x1000) AND NOT 0xFFF
              = physmem st_superpage (PDE_PTR st_superpage 0x1000) AND NOT 0xFFF)
   \<and> (physmem st_one_page (PDE_PTR st_one_page 0x1000) AND PTE_PS = 0
        \<and> pgdir_walk st_one_page 0x1000 = Some 0x2004
        \<and> physmem st_one_page 0x2004 AND PTE_P \<noteq> 0)
   \<and> (\<exists>out s'. mon_setperm st_one_page 0x1000 ''W'' = Some (0, out, s')
          \<and> pgdir s' = pgdir st_one_page
          \<and> (\<forall>a. a \<noteq> 0x2004 \<longrightarrow> physmem s' a = physmem st_one_page a)
          \<and> physmem s' 0x2004 AND PTE_P \<noteq> 0
          \<and> physmem s' 0x2004 AND NOT 0xFFF = physmem st_one_page 0x2004 AND NOT 0xFFF
          \<and> (physmem s' 0x2004 AND PTE_PS \<noteq> 0 \<longleftrightarrow> CHR ''S'' \<in> set (take 9 ''W'')))"
proof -
  have h: "set (take 9 ''W'') \<subseteq> set perm_string"
    by (simp add: perm_string_def)
  have a1: "physmem st_superpage (PDE_PTR st_superpage 0x1000) AND PTE_PS \<noteq> 0
        \<and> physmem st_superpage (PDE_PTR st_superpage 0x1000) AND PTE_P \<noteq> 0"
    by (simp add: st_superpage_def paging_defs PTE_defs)
  have a2: "physmem st_one_page (PDE_PTR st_one_page 0x1000) AND PTE_PS = 0
        \<and> pgdir_walk st_one_page 0x1000 = Some 0x2004
        \<and> physmem st_one_page 0x2004 AND PTE_P \<noteq> 0"
    by (simp add: st_one_page_def paging_defs PTE_defs)
  note c1 = mp [OF conjunct1 [OF mon_setperm_attribute_bits [OF h, of st_superpage "0x1000"]] a1]
  note c2 = mp [OF conjunct2 [OF mon_setperm_attribute_bits [OF h, of st_one_page "0x1000" "0x2004"]] a2]
  show ?thesis
    by (rule conjI [OF h conjI [OF a1 conjI [OF c1 conjI [OF a2 c2]]]])
qed

text \<open>
  The claim C3 as stated fails on the leaf path: the leaf entry of the page at \<open>0x1000\<close>
  in \<open>st_one_page\<close> is present with bit 7 clear, and \<^verbatim>\<open>setperm 0x1000 S\<close> sets it.
\<close>

theorem mon_setperm_superpage_bit_counterexample:
  "physmem st_one_page 0x2004 = 0x5003
   \<and> physmem st_one_page 0x2004 AND PTE_P \<noteq> 0
   \<and> physmem st_one_page 0x2004 AND PTE_PS = 0
   \<and> mon_setperm st_one_page 0x1000 ''S'' =
       Some (0, [NewMapping 0x1000 0x5000 0x81],
             st_one_page\<lparr>physmem := (physmem st_one_page)(0x2004 := 0x5081)\<rparr>)
   \<and> (0x5081 :: u32) AND PTE_PS \<noteq> 0"
  by (simp add: mon_setperm_def str2perm_def char2perm_def PTE_defs st_one_page_def
      paging_defs Let_def)

subsection \<open>showmap\<close>

lemmas codec_eval =
  perm2str_out_def perm2str_warns_def perm2str_def perm2str_loop_8 perm2str_char_def
  nth_perm_string

text \<open>
  C4 does not hold of the code. In \<open>st_one_page\<close> the page at \<open>0x1000\<close> is a present normal
  leaf: its directory entry \<open>0x2003\<close> points to the table at \<open>0x2000\<close>, its leaf entry
  \<open>0x5003\<close> records the frame \<open>0x5000\<close>. The line that showmap prints for it carries
  \<open>0x2000\<close>, the address of the table.
\<close>

theorem mon_showmap_leaf_reports_table_address:
  "PDE st_one_page 0x1000 = 0x2003 \<and> PTE st_one_page 0x1000 = 0x5003
   \<and> PTE_ADDR (PTE st_one_page 0x1000) = 0x5000
   \<and> mon_showmap (Suc (Suc n)) st_one_page 0x1000 1 =
       ([PtePerm 3, PseOff 0x1000 0x2000 ''-------WP''], Some 0)"
  by (simp add: mon_showmap_def PTE_defs st_one_page_def paging_defs ROUNDDOWN_def Let_def
      codec_eval)

text \<open>
  A step on a present leaf of a directory entry that is not a superpage: the address
  printed is that of the directory entry.
\<close>

lemma showmap_loop_leaf_step:
  assumes "vstart \<le> vend" and "PDE s vstart AND PTE_P \<noteq> 0" and "PDE s vstart AND PTE_PS = 0"
    and "PTE s vstart AND PTE_P \<noteq> 0"
  shows "showmap_loop (Suc n) s vstart vend =
     ([PtePerm (PERM (PTE s vstart))] @ perm2str_out (PERM (PTE s vstart))
        @ [PseOff vstart (PTE_ADDR (PDE s vstart)) (perm2str (PERM (PTE s vstart)))]
        @ fst (showmap_loop n s (vstart + PGSIZE) vend),
      snd (showmap_loop n s (vstart + PGSIZE) vend))"
  using assms by (simp add: Let_def split: prod.split)

text \<open>A step on an absent directory entry: one line, and showmap returns 1.\<close>

lemma showmap_loop_absent_pde:
  assumes "vstart \<le> vend" and "PDE s vstart AND PTE_P = 0"
  shows "showmap_loop (Suc n) s vstart vend = ([NoMapping vstart], Some 1)"
  using assms by (simp add: Let_def)

text \<open>
  A step on an absent leaf of a present directory entry that is not a superpage: the
  loop makes no progress, whatever the state and the range.
\<close>

lemma showmap_loop_absent_leaf:
  assumes "vstart \<le> vend" and "PDE s vstart AND PTE_P \<noteq> 0" and "PDE s vstart AND PTE_PS = 0"
    and "PTE s vstart AND PTE_P = 0"
  shows "showmap_loop n s vstart vend = ([], None)"
  using assms by (induction n) (simp_all add: Let_def)

lemma showmap_loop_stuck:
  "showmap_loop n st_empty_table 0x1000 0x1001 = ([], None)"
  by (rule showmap_loop_absent_leaf)
     (simp_all add: PTE_defs st_empty_table_def paging_defs)

text \<open>
  C5 does not hold of the code. In \<open>st_empty_table\<close> the address \<open>0x1000\<close> has a present
  directory entry that is not a superpage and a leaf entry that is not present. On it
  showmap prints nothing and does not return: whatever the fuel, the loop is still
  running when it is used up, with no line printed.
\<close>

theorem mon_showmap_absent_leaf_never_returns:
  "PDE st_empty_table 0x1000 = 0x2003 \<and> PTE st_empty_table 0x1000 = 0
   \<and> mon_showmap n st_empty_table 0x1000 1 = ([], None)"
  by (simp add: mon_showmap_def ROUNDDOWN_def PGSIZE_def showmap_loop_stuck)
     (simp add: st_empty_table_def paging_defs)

text \<open>
  The number of steps over small pages. When the start is on a page boundary, the range
  does not reach the top of the address space and every page visited is a small page,
  showmap returns 0 after \<open>length div 4096 + 1\<close> mapped steps: one more than the number
  of pages of the range when the length is a multiple of the page size.
\<close>

lemma filter_is_Mapped_perm2str_out: "filter is_Mapped (perm2str_out p) = []"
  by (simp add: perm2str_out_def)

lemma unat_add_PGSIZE: "unat v + 4096 < 2 ^ 32 \<Longrightarrow> unat (v + PGSIZE) = unat v + 4096"
  by (simp add: PGSIZE_def unat_word_ariths)

lemma showmap_loop_small_count:
  "\<lbrakk> \<forall>k\<le>m. small_page s (v + of_nat k * PGSIZE);
     unat v + m * 4096 \<le> unat vend; unat vend < unat v + Suc m * 4096;
     unat v + Suc m * 4096 < 2 ^ 32; Suc m < fuel \<rbrakk>
   \<Longrightarrow> snd (showmap_loop fuel s v vend) = Some 0
       \<and> length (filter is_Mapped (fst (showmap_loop fuel s v vend))) = Suc m"
proof (induction m arbitrary: v fuel)
  case 0
  then obtain n where n: "fuel = Suc (Suc n)"
    by (cases fuel; cases "fuel - 1") auto
  from 0 have sp: "small_page s v" by simp
  from 0 have le: "v \<le> vend" by (simp add: word_le_nat_alt)
  from 0 have u: "unat (v + PGSIZE) = unat v + 4096" by (simp add: unat_add_PGSIZE)
  with 0 have gt: "\<not> v + PGSIZE \<le> vend" by (simp add: word_le_nat_alt)
  have "showmap_loop (Suc n) s (v + PGSIZE) vend = ([], Some 0)"
    using gt by simp
  then show ?case
    using sp le unfolding n small_page_def
    by (subst (1 2) showmap_loop_leaf_step) (simp_all add: filter_is_Mapped_perm2str_out)
next
  case (Suc m)
  then obtain n where n: "fuel = Suc n" "Suc m < n"
    by (cases fuel) auto
  from Suc.prems have sp: "small_page s v" by (auto dest: spec[of _ 0])
  from Suc.prems have le: "v \<le> vend" by (simp add: word_le_nat_alt)
  from Suc.prems have u: "unat (v + PGSIZE) = unat v + 4096" by (simp add: unat_add_PGSIZE)
  have pages: "\<forall>k\<le>m. small_page s (v + PGSIZE + of_nat k * PGSIZE)"
  proof (intro allI impI)
    fix k assume "k \<le> m"
    then have "Suc k \<le> Suc m" by simp
    with Suc.prems(1) have "small_page s (v + of_nat (Suc k) * PGSIZE)" by blast
    moreover have "v + of_nat (Suc k) * PGSIZE = v + PGSIZE + of_nat k * PGSIZE"
      by (simp add: algebra_simps)
    ultimately show "small_page s (v + PGSIZE + of_nat k * PGSIZE)" by (simp only:)
  qed
  have IH: "snd (showmap_loop n s (v + PGSIZE) vend) = Some 0
       \<and> length (filter is_Mapped (fst (showmap_loop n s (v + PGSIZE) vend))) = Suc m"
    using Suc.prems n(2) by (intro Suc.IH[OF pages]) (simp_all add: u)
  show ?case
    using sp le IH unfolding n small_page_def
    by (subst (1 2) showmap_loop_leaf_step) (simp_all add: filter_is_Mapped_perm2str_out)
qed

lemma mon_showmap_small_pages_count:
  assumes aligned: "vstart0 mod PGSIZE = 0"
    and nowrap: "unat vstart0 + unat vlen + 4096 < 2 ^ 32"
    and pages: "\<forall>k \<le> unat vlen div 4096. small_page s (vstart0 + of_nat k * PGSIZE)"
    and fuel: "Suc (unat vlen div 4096) < fuel"
  shows "snd (mon_showmap fuel s vstart0 vlen) = Some 0
     \<and> length (filter is_Mapped (fst (mon_showmap fuel s vstart0 vlen)))
         = unat vlen div 4096 + 1"
proof -
  have r: "ROUNDDOWN vstart0 PGSIZE = vstart0"
    using aligned by (simp add: ROUNDDOWN_def)
  have e: "unat (vstart0 + vlen) = unat vstart0 + unat vlen"
    using nowrap by (simp add: unat_word_ariths)
  have 1: "unat vstart0 + unat vlen div 4096 * 4096 \<le> unat (vstart0 + vlen)"
    unfolding e by simp
  have 2: "unat (vstart0 + vlen) < unat vstart0 + Suc (unat vlen div 4096) * 4096"
    unfolding e by (simp add: dividend_less_div_times)
  have 3: "unat vstart0 + Suc (unat vlen div 4096) * 4096 < 2 ^ 32"
    using nowrap by simp
  show ?thesis
    unfolding mon_showmap_def Let_def r
    using showmap_loop_small_count[OF pages 1 2 3 fuel] by simp
qed

text \<open>
  C7 does not hold of the code. In \<open>st_two_pages\<close> the pages at \<open>0x1000\<close> and \<open>0x2000\<close> are
  mapped. For the start \<open>0x1000\<close>, already on a page boundary, and the length \<open>0x1000\<close>,
  one step of the small-page size, showmap reports two mapped steps and returns 0:
  its loop runs while \<^verbatim>\<open>vstart <= vend\<close>, so it also visits the page that begins at
  the end of the range.
\<close>

theorem mon_showmap_one_page_length_two_steps:
  "mon_showmap (Suc (Suc (Suc n))) st_two_pages 0x1000 0x1000 =
     ([PtePerm 3, PseOff 0x1000 0x2000 ''-------WP'',
       PtePerm 3, PseOff 0x2000 0x2000 ''-------WP''], Some 0)
   \<and> length (filter is_Mapped
        (fst (mon_showmap (Suc (Suc (Suc n))) st_two_pages 0x1000 0x1000))) = 2"
  by (simp add: mon_showmap_def PTE_defs st_two_pages_def paging_defs ROUNDDOWN_def Let_def
      codec_eval)

subsection \<open>dumpmem\<close>

text \<open>
  An address whose directory entry has the superpage bit and not the present bit: the
  loop prints its line again and again, whatever the state and the range.
\<close>

lemma dumpmem_loop_absent_superpage:
  assumes "mstart < mend" and "PDE s mstart AND PTE_PS \<noteq> 0" and "PDE s mstart AND PTE_P = 0"
  shows "dumpmem_loop n s mstart mend = (replicate n (DumpNoMapping mstart), None)"
  using assms by (induction n) simp_all

lemma dumpmem_loop_stuck:
  "dumpmem_loop n st_absent_super 0 1 = (replicate n (DumpNoMapping 0), None)"
  by (rule dumpmem_loop_absent_superpage)
     (simp_all add: PTE_defs st_absent_super_def paging_defs)

text \<open>
  C6 does not hold of the code. In \<open>st_absent_super\<close> the directory entry of address 0
  has the superpage bit and not the present bit. A dump of the one byte at address 0
  prints the no-mapping line for address 0 once in every iteration and never advances:
  with fuel \<open>n\<close> it has printed \<open>n\<close> such lines and has not returned.
\<close>

theorem mon_dumpmem_absent_superpage_never_returns:
  "PDE st_absent_super 0 = 0x80
   \<and> mon_dumpmem n st_absent_super 0 1 = (replicate n (DumpNoMapping 0), None)"
  by (simp add: mon_dumpmem_def dumpmem_loop_stuck) (simp add: st_absent_super_def paging_defs)

subsection \<open>step and continue\<close>

lemma and_or_self: "((x::u32) OR f) AND f = f"
  by (simp add: bit.conj_disj_distrib2 word_ao_absorbs)

text \<open>
  C8. For a trap frame whose trap number is neither the debug nor the breakpoint
  exception, or whose saved code segment is not at user privilege, and for a null
  trap frame, step and continue return 0, on which the monitor stays interactive, and
  leave the trap frame as it is. For a trap frame that qualifies, step sets the trap
  flag in the saved flags, continue clears it, nothing else changes, and both return
  \<open>-1\<close>, on which the monitor exits and the trapped context resumes.
\<close>

theorem mon_step_continue_gate:
  fixes t :: "'a Trapframe_scheme"
  shows
  "(\<not> ((tf_trapno t = T_DEBUG \<or> tf_trapno t = T_BRKPT) \<and> tf_cs t AND 3 = 3) \<longrightarrow>
      mon_step (Some t) = (0, Some t) \<and> mon_continue (Some t) = (0, Some t))
   \<and> mon_step (None :: 'a Trapframe_scheme option) = (0, None)
   \<and> mon_continue (None :: 'a Trapframe_scheme option) = (0, None)
   \<and> \<not> monitor_exits 0
   \<and> ((tf_trapno t = T_DEBUG \<or> tf_trapno t = T_BRKPT) \<and> tf_cs t AND 3 = 3 \<longrightarrow>
      mon_step (Some t) = (- 1, Some (t\<lparr>tf_eflags := tf_eflags t OR FL_TF\<rparr>))
      \<and> (tf_eflags t OR FL_TF) AND FL_TF = FL_TF
      \<and> mon_continue (Some t) = (- 1, Some (t\<lparr>tf_eflags := tf_eflags t AND NOT FL_TF\<rparr>))
      \<and> (tf_eflags t AND NOT FL_TF) AND FL_TF = 0)
   \<and> monitor_exits (- 1)"
  by (simp add: mon_step_def mon_continue_def monitor_exits_def and_or_self and.assoc)

theorem mon_step_continue_gate_witness:
  "\<not> ((tf_trapno tf_pgflt = T_DEBUG \<or> tf_trapno tf_pgflt = T_BRKPT) \<and> tf_cs tf_pgflt AND 3 = 3)
   \<and> (mon_step (Some tf_pgflt) = (0, Some tf_pgflt)
        \<and> mon_continue (Some tf_pgflt) = (0, Some tf_pgflt))
   \<and> ((tf_trapno tf_brkpt = T_DEBUG \<or> tf_trapno tf_brkpt = T_BRKPT) \<and> tf_cs tf_brkpt AND 3 = 3)
   \<and> (mon_step (Some tf_brkpt) = (- 1, Some (tf_brkpt\<lparr>tf_eflags := tf_eflags tf_brkpt OR FL_TF\<rparr>))
        \<and> (tf_eflags tf_brkpt OR FL_TF) AND FL_TF = FL_TF
        \<and> mon_continue (Some tf_brkpt) =
            (- 1, Some (tf_brkpt\<lparr>tf_eflags := tf_eflags tf_brkpt AND NOT FL_TF\<rparr>))
        \<and> (tf_eflags tf_brkpt AND NOT FL_TF) AND FL_TF = 0)"
proof -
  have a1: "\<not> ((tf_trapno tf_pgflt = T_DEBUG \<or> tf_trapno tf_pgflt = T_BRKPT)
              \<and> tf_cs tf_pgflt AND 3 = 3)"
    by (simp add: tf_pgflt_def T_DEBUG_def T_BRKPT_def)
  have a2: "(tf_trapno tf_brkpt = T_DEBUG \<or> tf_trapno tf_brkpt = T_BRKPT)
              \<and> tf_cs tf_brkpt AND 3 = 3"
    by (simp add: tf_brkpt_def T_DEBUG_def T_BRKPT_def)
  note c1 = mp [OF conjunct1 [OF mon_step_continue_gate [of tf_pgflt]] a1]
  note c2 = mp [OF conjunct1 [OF conjunct2 [OF conjunct2 [OF conjunct2 [OF conjunct2
              [OF mon_step_continue_gate [of tf_brkpt]]]]]] a2]
  show ?thesis
    by (rule conjI [OF a1 conjI [OF c1 conjI [OF a2 c2]]])
qed

subsection \<open>backtrace\<close>

lemma upt_0_4: "[0..<4] = [0, 1, 2, 3]"
  by (simp add: eval_nat_numeral)

lemma sf_ebp_read_frame: "sf_ebp (read_frame dbg rd x) = x"
  by (simp add: read_frame_def Let_def)

lemma read_frame_words:
  "sf_eip (read_frame dbg rd x) = rd (x + 4)"
  "sf_args (read_frame dbg rd x) = [rd (x + 8), rd (x + 12), rd (x + 16), rd (x + 20)]"
  by (simp_all add: read_frame_def Let_def upt_0_4 add.assoc)

lemma backtrace_loop_chain:
  "fp_chain rd fp fps \<Longrightarrow> length fps < fuel \<Longrightarrow>
   backtrace_loop fuel dbg rd fp = (map (read_frame dbg rd) fps, Some 0)"
proof (induction fps arbitrary: fp fuel)
  case Nil
  then obtain n where "fuel = Suc n" by (cases fuel) auto
  with Nil show ?case by simp
next
  case (Cons x xs)
  then obtain n where n: "fuel = Suc n" by (cases fuel) auto
  with Cons.prems have "fp = x" "x \<noteq> 0" "fp_chain rd (rd x) xs" "length xs < n" by auto
  with Cons.IH[of "rd x" n] n show ?case by simp
qed

lemma callee_to_caller_chain:
  "fp_chain rd fp fps \<Longrightarrow> callee_to_caller rd (map (read_frame dbg rd) fps)"
proof (induction fps arbitrary: fp)
  case Nil
  then show ?case by simp
next
  case (Cons x xs)
  show ?case
  proof (cases xs)
    case Nil
    then show ?thesis by simp
  next
    case (Cons y ys)
    with Cons.prems Cons.IH[of "rd x"] show ?thesis
      by (simp add: sf_ebp_read_frame)
  qed
qed

lemma backtrace_two_frames:
  "mon_backtrace 3 no_debuginfo rd_two_frames 0x100 =
     ([read_frame no_debuginfo rd_two_frames 0x100,
       read_frame no_debuginfo rd_two_frames 0x200], Some 0)"
proof -
  have "mon_backtrace (Suc (Suc (Suc 0))) no_debuginfo rd_two_frames 0x100 =
     ([read_frame no_debuginfo rd_two_frames 0x100,
       read_frame no_debuginfo rd_two_frames 0x200], Some 0)"
    by (simp add: mon_backtrace_def rd_two_frames_def)
  then show ?thesis by (simp add: numeral_3_eq_3)
qed

text \<open>
  C9, as amended. For every frame-pointer chain \<open>fp0 -> fp1 -> ... -> 0\<close> of length \<open>N\<close>,
  backtrace, given fuel for more than \<open>N\<close> iterations, returns 0 when the frame pointer
  reaches zero, having emitted exactly \<open>N\<close> stack frames, one for each frame pointer of
  the chain and in the order of the chain: the frame of the monitor first, each frame
  followed by that of its caller (callee to caller, inner to outer). Each has the
  return address read from the word above the frame pointer and the four words above
  that as arguments.
\<close>

theorem mon_backtrace_chain:
  assumes "fp_chain rd fp fps" and "length fps < fuel"
  shows "mon_backtrace fuel dbg rd fp = (map (read_frame dbg rd) fps, Some 0)
     \<and> length (fst (mon_backtrace fuel dbg rd fp)) = length fps
     \<and> map sf_ebp (fst (mon_backtrace fuel dbg rd fp)) = fps
     \<and> callee_to_caller rd (fst (mon_backtrace fuel dbg rd fp))
     \<and> (\<forall>f \<in> set (fst (mon_backtrace fuel dbg rd fp)).
           sf_eip f = rd (sf_ebp f + 4)
           \<and> sf_args f =
               [rd (sf_ebp f + 8), rd (sf_ebp f + 12), rd (sf_ebp f + 16), rd (sf_ebp f + 20)])"
proof -
  have r: "mon_backtrace fuel dbg rd fp = (map (read_frame dbg rd) fps, Some 0)"
    unfolding mon_backtrace_def using assms by (rule backtrace_loop_chain)
  have e: "map sf_ebp (map (read_frame dbg rd) fps) = fps"
    by (induction fps) (simp_all add: sf_ebp_read_frame)
  show ?thesis
    using callee_to_caller_chain[OF assms(1), of dbg] e
    by (auto simp: r read_frame_words sf_ebp_read_frame)
qed

theorem mon_backtrace_chain_witness:
  "fp_chain rd_two_frames 0x100 [0x100, 0x200] \<and> length [0x100, 0x200 :: u32] < 3
   \<and> mon_backtrace 3 no_debuginfo rd_two_frames 0x100 =
       (map (read_frame no_debuginfo rd_two_frames) [0x100, 0x200], Some 0)"
proof -
  have h1: "fp_chain rd_two_frames 0x100 [0x100, 0x200]"
    by (simp add: rd_two_frames_def)
  have h2: "length [0x100, 0x200 :: u32] < 3" by simp
  note c = conjunct1 [OF mon_backtrace_chain [OF h1 h2, of no_debuginfo]]
  show ?thesis
    by (rule conjI [OF h1 conjI [OF h2 c]])
qed

text \<open>
  The claim C9 as stated fails in its order. The stack \<open>rd_two_frames\<close> is the chain
  \<open>0x100 -> 0x200 -> 0\<close>, in which the frame at \<open>0x200\<close> is the caller. The frames come
  out with \<open>0x100\<close>, the callee, first: not caller to callee.
\<close>

theorem mon_backtrace_order_counterexample:
  "fp_chain rd_two_frames 0x100 [0x100, 0x200]
   \<and> map sf_ebp (fst (mon_backtrace 3 no_debuginfo rd_two_frames 0x100)) = [0x100, 0x200]
   \<and> \<not> caller_to_callee rd_two_frames (fst (mon_backtrace 3 no_debuginfo rd_two_frames 0x100))"
  by (simp add: backtrace_two_frames sf_ebp_read_frame) (simp add: rd_two_frames_def)

end
